theory Spec2Isabelle
  imports Complex_Main "HOL-Library.Log_Nat" "HOL-Library.Product_Lexorder"
begin

section \<open>Numbers\<close>

text \<open>
  The program computes with Python integers and with binary64 floating-point numbers
  (numpy's \<open>float64\<close>). Numeric values are modelled as rationals. Every floating-point
  operation of the source is written as the exact operation followed by a rounding function
  \<open>fl\<close>, which the model takes as a parameter:
  \<^item> \<open>exact\<close> rounds nothing and gives the exact rational arithmetic;
  \<^item> \<open>fl64\<close> rounds to the nearest number with a 53-bit significand, ties to even, as
    binary64 does (the exponent range, and with it overflow and subnormal numbers, is not
    modelled).

  \<open>predict_game_winner\<close> takes the rounding function, since its integer odds depend on
  the rounding; the percentages of the other functions are modelled in exact arithmetic.
\<close>

definition exact :: "rat \<Rightarrow> rat" where
  "exact x = x"

definition round_half_even :: "rat \<Rightarrow> int" where
  "round_half_even x =
     (let f = \<lfloor>x\<rfloor>; d = x - of_int f
      in if d < 1 / 2 then f else if 1 / 2 < d then f + 1
         else if even f then f else f + 1)"

text \<open>For \<open>0 < x\<close>, \<open>binade x\<close> is the exponent \<open>e\<close> with \<open>2 powi e \<le> x < 2 powi (e + 1)\<close>.\<close>

definition binade :: "rat \<Rightarrow> int" where
  "binade x = (if 1 \<le> x then bitlen \<lfloor>x\<rfloor> - 1 else - bitlen (\<lceil>1 / x\<rceil> - 1))"

definition fl64 :: "rat \<Rightarrow> rat" where
  "fl64 x =
     (if x = 0 then 0
      else let u = 2 powi (binade \<bar>x\<bar> - 52)
           in of_int (round_half_even (x / u)) * u)"

text \<open>\<open>int(x)\<close> on a float truncates towards zero.\<close>

definition py_int :: "rat \<Rightarrow> int" where
  "py_int x = (if 0 \<le> x then \<lfloor>x\<rfloor> else \<lceil>x\<rceil>)"

text \<open>\<open>str(i)\<close> on an integer: the decimal digits, with a leading minus sign below zero.\<close>

fun digits10 :: "nat \<Rightarrow> string" where
  "digits10 n =
     (if n < 10 then [''0123456789'' ! n]
      else digits10 (n div 10) @ [''0123456789'' ! (n mod 10)])"

declare digits10.simps [simp del]

definition py_str :: "int \<Rightarrow> string" where
  "py_str i = (if i < 0 then CHR ''-'' # digits10 (nat (- i)) else digits10 (nat i))"

section \<open>Data\<close>

datatype error = KeyError | ZeroDivisionError | ValueError | OverflowError

text \<open>One row of the table that \<open>calculate_team_stats\<close> returns, indexed by team name.\<close>

record team_summary =
  total_goals :: rat
  total_assists :: rat
  total_points :: rat
  avg_points_per_game :: rat
  total_powerplay_goals :: rat
  total_powerplay_assists :: rat
  total_penalty_minutes :: rat
  avg_rank :: rat

text \<open>One value of the dictionary that \<open>calculate_team_records\<close> returns.\<close>

record team_record =
  wins :: nat
  losses :: nat
  total_games :: nat

section \<open>\<open>predict_game_winner\<close>\<close>

text \<open>The default of \<open>team_records.get(team, {'wins': 0, 'losses': 0, 'total_games': 1})\<close>.\<close>

definition default_record :: team_record where
  "default_record = \<lparr>wins = 0, losses = 0, total_games = 1\<rparr>"

text \<open>
  The strength expression of lines 72 to 79, which the source writes once for each side:
  \<open>stats['total_points'] + stats['avg_rank'] * 10 + (record['wins'] / record['total_games']) * 100\<close>.
\<close>

definition team_strength :: "(rat \<Rightarrow> rat) \<Rightarrow> team_summary \<Rightarrow> team_record \<Rightarrow> rat" where
  "team_strength fl stats record =
     fl (fl (total_points stats + fl (avg_rank stats * 10)) +
         fl (fl (of_nat (wins record) / of_nat (total_games record)) * 100))"

text \<open>Lines 92 and 93: \<open>f"+{odds}" if odds > 0 else str(odds)\<close>.\<close>

definition fmt_odds :: "int \<Rightarrow> string" where
  "fmt_odds odds = (if 0 < odds then CHR ''+'' # py_str odds else py_str odds)"

text \<open>
  The result is the tuple \<open>(winner, home_odds, away_odds, home_prob, away_prob)\<close>.
  The exceptions of the source are the \<open>Inl\<close> results:
  \<^item> \<open>team_stats.loc[team]\<close> raises \<open>KeyError\<close> for a team that is not in the index;
  \<^item> the division of two Python integers raises \<open>ZeroDivisionError\<close> when a record has
    \<open>total_games = 0\<close>;
  \<^item> a \<open>float64\<close> division by zero raises nothing and gives an infinity or a NaN, and
    \<open>int\<close> then raises \<open>OverflowError\<close> on the infinity and \<open>ValueError\<close> on the NaN.
    With \<open>total_strength = 0\<close> the two probabilities are both NaN, or one is \<open>inf\<close> and
    the other \<open>-inf\<close>; on every path the odds of one side are then computed from a NaN.
    With a probability \<open>0\<close> and a nonzero total, \<open>100 / 0\<close> or \<open>(1 - 0) / 0\<close> is an
    infinity.
\<close>

definition predict_game_winner ::
  "(rat \<Rightarrow> rat) \<Rightarrow> string \<Rightarrow> string \<Rightarrow> (string \<rightharpoonup> team_summary) \<Rightarrow> (string \<rightharpoonup> team_record)
     \<Rightarrow> error + (string \<times> string \<times> string \<times> rat \<times> rat)" where
  "predict_game_winner fl home_team away_team team_stats team_records =
     (case team_stats home_team of
        None \<Rightarrow> Inl KeyError
      | Some home_stats \<Rightarrow>
     (case team_stats away_team of
        None \<Rightarrow> Inl KeyError
      | Some away_stats \<Rightarrow>
     (let home_record = (case team_records home_team of None \<Rightarrow> default_record | Some r \<Rightarrow> r);
          away_record = (case team_records away_team of None \<Rightarrow> default_record | Some r \<Rightarrow> r)
      in if total_games home_record = 0 \<or> total_games away_record = 0 then Inl ZeroDivisionError
         else
           (let home_strength = team_strength fl home_stats home_record;
                away_strength = team_strength fl away_stats away_record;
                total_strength = fl (home_strength + away_strength)
            in if total_strength = 0 then Inl ValueError
               else
                 (let home_prob = fl (home_strength / total_strength);
                      away_prob = fl (away_strength / total_strength)
                  in if home_prob = 0 \<or> away_prob = 0 then Inl OverflowError
                     else
                       (let (home_odds, away_odds) =
                              (if away_prob < home_prob
                               then (- py_int (fl (100 / home_prob)),
                                     py_int (fl (100 * fl (fl (1 - away_prob) / away_prob))))
                               else (py_int (fl (100 * fl (fl (1 - home_prob) / home_prob))),
                                     - py_int (fl (100 / away_prob))));
                            winner = (if away_prob < home_prob then home_team else away_team)
                        in Inr (winner, fmt_odds home_odds, fmt_odds away_odds,
                                home_prob, away_prob)))))))"

section \<open>\<open>calculate_team_records\<close>\<close>

text \<open>
  One row of the schedule table, with the columns the function reads. A goals cell of
  a game that has no score yet is empty in the file and a NaN in the table: \<open>None\<close>.
\<close>

record game_row =
  HomeTeam :: string
  AwayTeam :: string
  HomeGoals :: "rat option"
  AwayGoals :: "rat option"

text \<open>\<open>goals_for > goals_against\<close>: every comparison with a NaN is false.\<close>

definition goals_gt :: "rat option \<Rightarrow> rat option \<Rightarrow> bool" where
  "goals_gt goals_for goals_against =
     (case goals_for of
        None \<Rightarrow> False
      | Some x \<Rightarrow> (case goals_against of None \<Rightarrow> False | Some y \<Rightarrow> y < x))"

text \<open>The body of the inner loop (lines 54 to 60), for one \<open>(team, goals_for, goals_against)\<close>.\<close>

fun update_record ::
  "(string \<rightharpoonup> team_record) \<Rightarrow> string \<times> rat option \<times> rat option \<Rightarrow> (string \<rightharpoonup> team_record)" where
  "update_record team_records (team, goals_for, goals_against) =
     (let r0 = (case team_records team of
                  None \<Rightarrow> \<lparr>wins = 0, losses = 0, total_games = 0\<rparr>
                | Some r \<Rightarrow> r);
          r1 = r0\<lparr>total_games := total_games r0 + 1\<rparr>;
          r2 = (if goals_gt goals_for goals_against
                then r1\<lparr>wins := wins r1 + 1\<rparr>
                else r1\<lparr>losses := losses r1 + 1\<rparr>)
      in team_records(team \<mapsto> r2))"

text \<open>The body of the outer loop: the home side first, then the away side.\<close>

definition process_row :: "(string \<rightharpoonup> team_record) \<Rightarrow> game_row \<Rightarrow> (string \<rightharpoonup> team_record)" where
  "process_row team_records row =
     foldl update_record team_records
       [(HomeTeam row, HomeGoals row, AwayGoals row),
        (AwayTeam row, AwayGoals row, HomeGoals row)]"

definition calculate_team_records :: "game_row list \<Rightarrow> (string \<rightharpoonup> team_record)" where
  "calculate_team_records schedule_df = foldl process_row Map.empty schedule_df"

text \<open>The counters of a team in a dictionary of records, \<open>0\<close> for a team without an entry.\<close>

definition wins_of :: "(string \<rightharpoonup> team_record) \<Rightarrow> string \<Rightarrow> nat" where
  "wins_of team_records team = (case team_records team of None \<Rightarrow> 0 | Some r \<Rightarrow> wins r)"

definition losses_of :: "(string \<rightharpoonup> team_record) \<Rightarrow> string \<Rightarrow> nat" where
  "losses_of team_records team = (case team_records team of None \<Rightarrow> 0 | Some r \<Rightarrow> losses r)"

definition games_of :: "(string \<rightharpoonup> team_record) \<Rightarrow> string \<Rightarrow> nat" where
  "games_of team_records team =
     (case team_records team of None \<Rightarrow> 0 | Some r \<Rightarrow> total_games r)"

text \<open>Every record of the dictionary has \<open>wins + losses = total_games\<close>.\<close>

definition records_ok :: "(string \<rightharpoonup> team_record) \<Rightarrow> bool" where
  "records_ok m \<longleftrightarrow> (\<forall>t r. m t = Some r \<longrightarrow> wins r + losses r = total_games r)"

section \<open>Table operations\<close>




section \<open>\<open>simulate_scores\<close>\<close>





section \<open>\<open>calculate_player_probabilities\<close>\<close>







section \<open>Example inputs\<close>

text \<open>A team summary with the given \<open>total_points\<close> and \<open>avg_rank\<close>.\<close>

definition summary :: "rat \<Rightarrow> rat \<Rightarrow> team_summary" where
  "summary pts rnk =
     \<lparr>total_goals = 0, total_assists = 0, total_points = pts, avg_points_per_game = 0,
      total_powerplay_goals = 0, total_powerplay_assists = 0, total_penalty_minutes = 0,
      avg_rank = rnk\<rparr>"

text \<open>The table of team summaries with the two teams \<open>H\<close> and \<open>A\<close>.\<close>

definition two_teams :: "team_summary \<Rightarrow> team_summary \<Rightarrow> (string \<rightharpoonup> team_summary)" where
  "two_teams h a = [''H'' \<mapsto> h, ''A'' \<mapsto> a]"

text \<open>\<open>s\<close> is the rendering of a negative number.\<close>

definition negative_odds :: "string \<Rightarrow> bool" where
  "negative_odds s = (case s of [] \<Rightarrow> False | c # _ \<Rightarrow> c = CHR ''-'')"

section \<open>Properties of the rounding\<close>

text \<open>\<open>binade x\<close> is the binary exponent of a positive \<open>x\<close>.\<close>

lemma binade_bounds:
  assumes "0 < x"
  shows "2 powi binade x \<le> x \<and> x < 2 powi (binade x + 1)"
proof (cases "1 \<le> x")
  case True
  define n where "n = \<lfloor>x\<rfloor>"
  have n: "0 < n" using True by (simp add: n_def)
  have b: "1 \<le> bitlen n" using n by (simp add: bitlen_alt_def)
  from bitlen_bounds [OF n]
  have lo: "2 ^ nat (bitlen n - 1) \<le> n" and hi: "n < 2 ^ nat (bitlen n)" by simp_all
  have e: "binade x = bitlen n - 1" using True by (simp add: binade_def n_def)
  have p1: "(2::rat) powi (bitlen n - 1) = of_int (2 ^ nat (bitlen n - 1))"
    using b by (simp add: power_int_def)
  have p2: "(2::rat) powi (bitlen n - 1 + 1) = of_int (2 ^ nat (bitlen n))"
    using b by (simp add: power_int_def)
  have "of_int (2 ^ nat (bitlen n - 1)) \<le> (of_int n :: rat)"
    using lo by (simp only: of_int_le_iff)
  also have "\<dots> \<le> x" by (simp add: n_def)
  finally have 1: "2 powi binade x \<le> x" unfolding e p1 .
  have "n + 1 \<le> 2 ^ nat (bitlen n)" using hi by simp
  then have "(of_int (n + 1) :: rat) \<le> of_int (2 ^ nat (bitlen n))"
    by (simp only: of_int_le_iff)
  moreover have "x < of_int (n + 1)" unfolding n_def by linarith
  ultimately have 2: "x < 2 powi (binade x + 1)" unfolding e p2 by linarith
  from 1 2 show ?thesis ..
next
  case False
  define y where "y = 1 / x"
  define m where "m = \<lceil>y\<rceil> - 1"
  have y: "1 < y" using False assms by (simp add: y_def)
  have m: "0 < m" using y by (simp add: m_def less_ceiling_iff)
  have my: "of_int m < y" "y \<le> of_int m + 1" unfolding m_def by linarith+
  have b: "1 \<le> bitlen m" using m by (simp add: bitlen_alt_def)
  from bitlen_bounds [OF m]
  have lo: "2 ^ nat (bitlen m - 1) \<le> m" and hi: "m < 2 ^ nat (bitlen m)" by simp_all
  have e: "binade x = - bitlen m" using False by (simp add: binade_def m_def y_def)
  have x: "x = 1 / y" using assms by (simp add: y_def)
  have p1: "(2::rat) powi (- bitlen m) = 1 / of_int (2 ^ nat (bitlen m))"
    using b by (simp add: power_int_def field_simps)
  have p2: "(2::rat) powi (- bitlen m + 1) = 1 / of_int (2 ^ nat (bitlen m - 1))"
    using b by (simp add: power_int_def field_simps nat_diff_distrib)
  have "m + 1 \<le> 2 ^ nat (bitlen m)" using hi by simp
  then have "(of_int (m + 1) :: rat) \<le> of_int (2 ^ nat (bitlen m))"
    by (simp only: of_int_le_iff)
  then have "y \<le> of_int (2 ^ nat (bitlen m))" using my by simp
  then have "1 / of_int (2 ^ nat (bitlen m)) \<le> 1 / y" using y
    by (simp add: field_simps)
  then have 1: "2 powi binade x \<le> x" unfolding e p1 using x by simp
  have "(of_int (2 ^ nat (bitlen m - 1)) :: rat) \<le> of_int m"
    using lo by (simp only: of_int_le_iff)
  then have "of_int (2 ^ nat (bitlen m - 1)) < y" using my by linarith
  then have "1 / y < 1 / of_int (2 ^ nat (bitlen m - 1))" using y
    by (simp add: field_simps)
  then have 2: "x < 2 powi (binade x + 1)" unfolding e p2 using x by simp
  from 1 2 show ?thesis ..
qed

text \<open>
  \<open>round_half_even\<close> gives a nearest integer, the even one of two nearest; \<open>fl64 x\<close> is a
  number with a significand of at most 53 bits in the binade of \<open>x\<close> (or the power of two
  above it), at most half a unit in the last place away from \<open>x\<close>.
\<close>

lemma round_half_even_nearest: "\<bar>of_int (round_half_even z) - z\<bar> \<le> 1 / 2"
proof -
  have "of_int \<lfloor>z\<rfloor> \<le> z" "z < of_int \<lfloor>z\<rfloor> + 1" by linarith+
  then show ?thesis
    by (auto simp: round_half_even_def Let_def)
qed

lemma round_half_even_tie:
  assumes "\<bar>of_int (round_half_even z) - z\<bar> = 1 / 2"
  shows "even (round_half_even z)"
proof -
  have "of_int \<lfloor>z\<rfloor> \<le> z" "z < of_int \<lfloor>z\<rfloor> + 1" by linarith+
  with assms show ?thesis
    by (auto simp: round_half_even_def Let_def split: if_splits)
qed

lemma round_half_even_bound:
  assumes "\<bar>z\<bar> \<le> of_int k"
  shows "\<bar>round_half_even z\<bar> \<le> k"
proof -
  from assms have z: "- of_int k \<le> z" "z \<le> of_int k" by linarith+
  then have lo: "- k \<le> \<lfloor>z\<rfloor>" and hi: "\<lfloor>z\<rfloor> \<le> k"
    by (simp_all add: le_floor_iff floor_le_iff)
  have up: "round_half_even z \<le> k"
  proof (cases "\<lfloor>z\<rfloor> = k")
    case True
    then have "of_int k \<le> z" using of_int_floor_le [of z] by simp
    with z have "z = of_int k" by simp
    then show ?thesis by (simp add: round_half_even_def)
  next
    case False
    with hi have "\<lfloor>z\<rfloor> + 1 \<le> k" by simp
    then show ?thesis by (simp add: round_half_even_def Let_def)
  qed
  have "- k \<le> round_half_even z"
    using lo by (simp add: round_half_even_def Let_def)
  with up show ?thesis by simp
qed

lemma fl64_error:
  assumes "x \<noteq> 0"
  shows "\<bar>fl64 x - x\<bar> \<le> 2 powi (binade \<bar>x\<bar> - 53)"
proof -
  define u :: rat where "u = 2 powi (binade \<bar>x\<bar> - 52)"
  have u: "0 < u" by (simp add: u_def)
  have h: "2 powi (binade \<bar>x\<bar> - 53) = u / 2"
    by (simp add: u_def power_int_diff)
  have f: "fl64 x = of_int (round_half_even (x / u)) * u"
    using assms by (simp add: fl64_def Let_def u_def)
  have "fl64 x - x = (of_int (round_half_even (x / u)) - x / u) * u"
    using u by (simp add: f field_simps)
  then have "\<bar>fl64 x - x\<bar> = \<bar>of_int (round_half_even (x / u)) - x / u\<bar> * u"
    using u by (simp add: abs_mult)
  also have "\<dots> \<le> 1 / 2 * u"
    using u round_half_even_nearest [of "x / u"] by (intro mult_right_mono) simp_all
  finally show ?thesis unfolding h by simp
qed

lemma fl64_significand:
  assumes "x \<noteq> 0"
  shows "\<exists>m. fl64 x = of_int m * 2 powi (binade \<bar>x\<bar> - 52) \<and> \<bar>m\<bar> \<le> 2 ^ 53"
proof -
  define u :: rat where "u = 2 powi (binade \<bar>x\<bar> - 52)"
  have u: "0 < u" by (simp add: u_def)
  have f: "fl64 x = of_int (round_half_even (x / u)) * u"
    using assms by (simp add: fl64_def Let_def u_def)
  have "\<bar>x\<bar> < 2 powi (binade \<bar>x\<bar> + 1)"
    using binade_bounds [of "\<bar>x\<bar>"] assms by simp
  also have "\<dots> = 2 ^ 53 * u"
    by (simp add: u_def power_int_diff power_int_add)
  finally have "\<bar>x / u\<bar> \<le> of_int (2 ^ 53)"
    using u by (simp add: field_simps abs_mult)
  then have "\<bar>round_half_even (x / u)\<bar> \<le> 2 ^ 53"
    by (rule round_half_even_bound)
  with f show ?thesis unfolding u_def by blast
qed

section \<open>Properties of \<open>predict_game_winner\<close>\<close>

subsection \<open>Rendering of the odds\<close>

lemma digits10_chars: "set (digits10 n) \<subseteq> set ''0123456789'' \<and> digits10 n \<noteq> []"
proof (induction n rule: digits10.induct)
  case (1 n)
  have m: "''0123456789'' ! k \<in> set ''0123456789''" if "k < 10" for k
    using that by (intro nth_mem) simp
  show ?case
  proof (cases "n < 10")
    case True
    then show ?thesis using m [of n] by (subst (1 2) digits10.simps) simp
  next
    case False
    then show ?thesis using 1 m [of "n mod 10"]
      by (subst (1 2) digits10.simps) simp
  qed
qed

lemma negative_odds_py_str: "negative_odds (py_str i) \<longleftrightarrow> i < 0"
proof -
  have "\<not> negative_odds (digits10 n)" for n
  proof (cases "digits10 n")
    case Nil
    then show ?thesis by (simp add: negative_odds_def)
  next
    case (Cons c cs)
    then have "c \<in> set ''0123456789''" using digits10_chars [of n] by simp
    then have "c \<noteq> CHR ''-''" by auto
    then show ?thesis using Cons by (simp add: negative_odds_def)
  qed
  then show ?thesis by (simp add: py_str_def negative_odds_def)
qed

lemma negative_odds_fmt_odds: "negative_odds (fmt_odds i) \<longleftrightarrow> i < 0"
  using negative_odds_py_str [of i] by (auto simp: fmt_odds_def negative_odds_def)



subsection \<open>The result for two teams of the table\<close>

lemma predict_game_winner_found:
  assumes "team_stats home_team = Some hs" and "team_stats away_team = Some as"
    and "hr = (case team_records home_team of None \<Rightarrow> default_record | Some r \<Rightarrow> r)"
    and "ar = (case team_records away_team of None \<Rightarrow> default_record | Some r \<Rightarrow> r)"
    and "H = team_strength fl hs hr" and "A = team_strength fl as ar"
    and "T = fl (H + A)" and "hp = fl (H / T)" and "ap = fl (A / T)"
  shows "predict_game_winner fl home_team away_team team_stats team_records =
     (if total_games hr = 0 \<or> total_games ar = 0 then Inl ZeroDivisionError
      else if T = 0 then Inl ValueError
      else if hp = 0 \<or> ap = 0 then Inl OverflowError
      else Inr (if ap < hp then home_team else away_team,
                fmt_odds (if ap < hp then - py_int (fl (100 / hp))
                          else py_int (fl (100 * fl (fl (1 - hp) / hp)))),
                fmt_odds (if ap < hp then py_int (fl (100 * fl (fl (1 - ap) / ap)))
                          else - py_int (fl (100 / ap))),
                hp, ap))"
  unfolding predict_game_winner_def assms(3-9)
  by (simp add: assms(1,2) Let_def)

lemma team_strength_exact:
  "team_strength exact stats record =
     total_points stats + avg_rank stats * 10 +
       of_nat (wins record) / of_nat (total_games record) * 100"
  by (simp add: team_strength_def exact_def)



subsection \<open>Probabilities\<close>


lemma example_150_100_exact:
  "predict_game_winner exact ''H'' ''A'' (two_teams (summary 150 0) (summary 100 0)) Map.empty
     = Inr (''H'', ''-166'', ''+150'', 3 / 5, 2 / 5)"
  by code_simp






subsection \<open>Odds\<close>







subsection \<open>Equal probabilities\<close>



subsection \<open>Teams that are not found\<close>

lemma predict_game_winner_KeyError:
  "predict_game_winner fl home_team away_team team_stats team_records = Inl KeyError
     \<longleftrightarrow> team_stats home_team = None \<or> team_stats away_team = None"
proof (cases "team_stats home_team")
  case None
  then show ?thesis by (simp add: predict_game_winner_def)
next
  case h: (Some hs)
  show ?thesis
  proof (cases "team_stats away_team")
    case None
    then show ?thesis using h by (simp add: predict_game_winner_def)
  next
    case a: (Some as)
    show ?thesis
      unfolding predict_game_winner_found [OF h a refl refl refl refl refl refl refl]
      using h a by simp
  qed
qed

lemma predict_game_winner_default_home:
  assumes "team_records home_team = None"
  shows "predict_game_winner fl home_team away_team team_stats team_records =
         predict_game_winner fl home_team away_team team_stats
           (team_records(home_team \<mapsto> default_record))"
proof -
  have "(case (team_records(home_team \<mapsto> default_record)) t of
           None \<Rightarrow> default_record | Some r \<Rightarrow> r) =
        (case team_records t of None \<Rightarrow> default_record | Some r \<Rightarrow> r)" for t
    using assms by (cases "t = home_team") simp_all
  then show ?thesis unfolding predict_game_winner_def by (simp only:)
qed

lemma predict_game_winner_default_away:
  assumes "team_records away_team = None"
  shows "predict_game_winner fl home_team away_team team_stats team_records =
         predict_game_winner fl home_team away_team team_stats
           (team_records(away_team \<mapsto> default_record))"
proof -
  have "(case (team_records(away_team \<mapsto> default_record)) t of
           None \<Rightarrow> default_record | Some r \<Rightarrow> r) =
        (case team_records t of None \<Rightarrow> default_record | Some r \<Rightarrow> r)" for t
    using assms by (cases "t = away_team") simp_all
  then show ?thesis unfolding predict_game_winner_def by (simp only:)
qed

text \<open>
  Claim C5. \<open>predict_game_winner\<close> fails with \<open>KeyError\<close> exactly when the home or the
  away team has no row in the table of team summaries. A team without an entry in the
  dictionary of records changes nothing of that: the result is the one for the dictionary
  with the record \<open>{wins: 0, losses: 0, total_games: 1}\<close> for that team, whose strength
  is \<open>total_points + avg_rank * 10\<close>, without a contribution of the win rate.
\<close>

theorem predict_game_winner_team_not_found:
  "(predict_game_winner fl home_team away_team team_stats team_records = Inl KeyError
      \<longleftrightarrow> team_stats home_team = None \<or> team_stats away_team = None)
   \<and> (team_records home_team = None \<longrightarrow>
        predict_game_winner fl home_team away_team team_stats team_records =
        predict_game_winner fl home_team away_team team_stats
          (team_records(home_team \<mapsto> default_record)))
   \<and> (team_records away_team = None \<longrightarrow>
        predict_game_winner fl home_team away_team team_stats team_records =
        predict_game_winner fl home_team away_team team_stats
          (team_records(away_team \<mapsto> default_record)))
   \<and> team_strength exact stats default_record = total_points stats + avg_rank stats * 10"
  using predict_game_winner_KeyError [of fl home_team away_team team_stats team_records]
    predict_game_winner_default_home [of team_records home_team fl away_team team_stats]
    predict_game_winner_default_away [of team_records away_team fl home_team team_stats]
  by (simp add: team_strength_exact default_record_def)

theorem predict_game_winner_team_not_found_witness:
  "predict_game_winner exact ''H'' ''B'' (two_teams (summary 150 0) (summary 100 0)) Map.empty
     = Inl KeyError
   \<and> two_teams (summary 150 0) (summary 100 0) ''B'' = None
   \<and> (Map.empty :: string \<rightharpoonup> team_record) ''H'' = None
   \<and> (Map.empty :: string \<rightharpoonup> team_record) ''A'' = None
   \<and> predict_game_winner exact ''H'' ''A'' (two_teams (summary 150 0) (summary 100 0))
        [''H'' \<mapsto> default_record] = Inr (''H'', ''-166'', ''+150'', 3 / 5, 2 / 5)
   \<and> predict_game_winner exact ''H'' ''A'' (two_teams (summary 150 0) (summary 100 0))
        [''A'' \<mapsto> default_record] = Inr (''H'', ''-166'', ''+150'', 3 / 5, 2 / 5)
   \<and> team_strength exact (summary 150 0) default_record = 150"
proof -
  have n: "two_teams (summary 150 0) (summary 100 0) ''B'' = None"
    by (simp add: two_teams_def)
  note t1 = predict_game_winner_team_not_found [of exact "''H''" "''B''"
      "two_teams (summary 150 0) (summary 100 0)" Map.empty "summary 150 0"]
  note t2 = predict_game_winner_team_not_found [of exact "''H''" "''A''"
      "two_teams (summary 150 0) (summary 100 0)" Map.empty "summary 150 0"]
  have k: "predict_game_winner exact ''H'' ''B''
      (two_teams (summary 150 0) (summary 100 0)) Map.empty = Inl KeyError"
    using t1 n by simp
  have h1: "predict_game_winner exact ''H'' ''A''
        (two_teams (summary 150 0) (summary 100 0)) Map.empty =
      predict_game_winner exact ''H'' ''A'' (two_teams (summary 150 0) (summary 100 0))
        [''H'' \<mapsto> default_record]"
    by (rule t2 [THEN conjunct2, THEN conjunct1, THEN mp]) simp
  have h2: "predict_game_winner exact ''H'' ''A''
        (two_teams (summary 150 0) (summary 100 0)) Map.empty =
      predict_game_winner exact ''H'' ''A'' (two_teams (summary 150 0) (summary 100 0))
        [''A'' \<mapsto> default_record]"
    by (rule t2 [THEN conjunct2, THEN conjunct2, THEN conjunct1, THEN mp]) simp
  have d1: "predict_game_winner exact ''H'' ''A'' (two_teams (summary 150 0) (summary 100 0))
        [''H'' \<mapsto> default_record] = Inr (''H'', ''-166'', ''+150'', 3 / 5, 2 / 5)"
    unfolding h1 [symmetric] by (rule example_150_100_exact)
  have d2: "predict_game_winner exact ''H'' ''A'' (two_teams (summary 150 0) (summary 100 0))
        [''A'' \<mapsto> default_record] = Inr (''H'', ''-166'', ''+150'', 3 / 5, 2 / 5)"
    unfolding h2 [symmetric] by (rule example_150_100_exact)
  have st: "team_strength exact (summary 150 0) default_record = 150"
    unfolding t2 [THEN conjunct2, THEN conjunct2, THEN conjunct2] by (simp add: summary_def)
  show ?thesis using k n d1 d2 st by simp
qed

section \<open>Properties of \<open>calculate_team_records\<close>\<close>

lemma calculate_team_records_snoc:
  "calculate_team_records (schedule_df @ [row]) =
     process_row (calculate_team_records schedule_df) row"
  by (simp add: calculate_team_records_def)

lemma wins_of_update_record:
  "wins_of (update_record m (team, gf, ga)) t =
     wins_of m t + (if t = team \<and> goals_gt gf ga then 1 else 0)"
  by (simp add: wins_of_def Let_def split: option.splits)

lemma losses_of_update_record:
  "losses_of (update_record m (team, gf, ga)) t =
     losses_of m t + (if t = team \<and> \<not> goals_gt gf ga then 1 else 0)"
  by (simp add: losses_of_def Let_def split: option.splits)

lemma games_of_update_record:
  "games_of (update_record m (team, gf, ga)) t = games_of m t + (if t = team then 1 else 0)"
  by (simp add: games_of_def Let_def split: option.splits)

lemma dom_update_record: "dom (update_record m (team, gf, ga)) = insert team (dom m)"
  by (simp add: Let_def)

lemma wins_of_process_row:
  "wins_of (process_row m row) t =
     wins_of m t + (if t = HomeTeam row \<and> goals_gt (HomeGoals row) (AwayGoals row) then 1 else 0)
       + (if t = AwayTeam row \<and> goals_gt (AwayGoals row) (HomeGoals row) then 1 else 0)"
  by (simp add: process_row_def wins_of_update_record del: update_record.simps)

lemma losses_of_process_row:
  "losses_of (process_row m row) t =
     losses_of m t
       + (if t = HomeTeam row \<and> \<not> goals_gt (HomeGoals row) (AwayGoals row) then 1 else 0)
       + (if t = AwayTeam row \<and> \<not> goals_gt (AwayGoals row) (HomeGoals row) then 1 else 0)"
  by (simp add: process_row_def losses_of_update_record del: update_record.simps)

lemma games_of_process_row:
  "games_of (process_row m row) t =
     games_of m t + (if t = HomeTeam row then 1 else 0) + (if t = AwayTeam row then 1 else 0)"
  by (simp add: process_row_def games_of_update_record del: update_record.simps)

lemma dom_process_row: "dom (process_row m row) = insert (AwayTeam row) (insert (HomeTeam row) (dom m))"
  by (simp add: process_row_def dom_update_record del: update_record.simps)

text \<open>
  Claim C3. For a game with both goal values, processed after any sequence of games: the
  side with strictly more goals gains one win and the other side one loss; with equal
  scores the home side and the away side gain one loss each and nobody a win; both sides
  gain one game. Both teams have an entry afterwards, and the counters of every other team
  are unchanged.
\<close>

theorem calculate_team_records_completed_game:
  assumes "HomeGoals row = Some home_goals" and "AwayGoals row = Some away_goals"
    and "before = calculate_team_records schedule_df"
    and "after = calculate_team_records (schedule_df @ [row])"
  shows "wins_of after team = wins_of before team
             + (if team = HomeTeam row \<and> away_goals < home_goals then 1 else 0)
             + (if team = AwayTeam row \<and> home_goals < away_goals then 1 else 0)
       \<and> losses_of after team = losses_of before team
             + (if team = HomeTeam row \<and> home_goals \<le> away_goals then 1 else 0)
             + (if team = AwayTeam row \<and> away_goals \<le> home_goals then 1 else 0)
       \<and> games_of after team = games_of before team
             + (if team = HomeTeam row then 1 else 0)
             + (if team = AwayTeam row then 1 else 0)
       \<and> HomeTeam row \<in> dom after \<and> AwayTeam row \<in> dom after"
  unfolding assms(3,4) calculate_team_records_snoc
  by (simp add: wins_of_process_row losses_of_process_row games_of_process_row
      dom_process_row goals_gt_def assms(1,2) not_less)

theorem calculate_team_records_completed_game_witness:
  "HomeGoals \<lparr>HomeTeam = ''H'', AwayTeam = ''A'', HomeGoals = Some 2, AwayGoals = Some 2\<rparr> = Some 2
   \<and> AwayGoals \<lparr>HomeTeam = ''H'', AwayTeam = ''A'', HomeGoals = Some 2, AwayGoals = Some 2\<rparr> = Some 2
   \<and> wins_of (calculate_team_records
        [\<lparr>HomeTeam = ''H'', AwayTeam = ''A'', HomeGoals = Some 2, AwayGoals = Some 2\<rparr>]) ''H'' = 0
   \<and> losses_of (calculate_team_records
        [\<lparr>HomeTeam = ''H'', AwayTeam = ''A'', HomeGoals = Some 2, AwayGoals = Some 2\<rparr>]) ''H'' = 1
   \<and> games_of (calculate_team_records
        [\<lparr>HomeTeam = ''H'', AwayTeam = ''A'', HomeGoals = Some 2, AwayGoals = Some 2\<rparr>]) ''H'' = 1"
proof -
  let ?row = "\<lparr>HomeTeam = ''H'', AwayTeam = ''A'', HomeGoals = Some 2, AwayGoals = Some 2\<rparr>"
  have g: "HomeGoals ?row = Some 2" "AwayGoals ?row = Some 2" by simp_all
  have e: "wins_of (calculate_team_records []) ''H'' = 0"
    "losses_of (calculate_team_records []) ''H'' = 0"
    "games_of (calculate_team_records []) ''H'' = 0"
    by (simp_all add: calculate_team_records_def wins_of_def losses_of_def games_of_def)
  from calculate_team_records_completed_game [OF g refl refl, of "[]" "''H''"] e
  show ?thesis by simp
qed

subsection \<open>Games without a score\<close>

text \<open>
  Claim C4 fails on the code: a row without goal values is not skipped. Both comparisons
  with the missing value are false, so both teams gain a loss and a game. After one game
  that \<open>H\<close> won 3 to 1 and one game of the same teams that has no score yet, \<open>H\<close> has one
  win and one loss in two games, and \<open>A\<close> two losses in two games.
\<close>

theorem calculate_team_records_unplayed_game:
  "calculate_team_records
     [\<lparr>HomeTeam = ''H'', AwayTeam = ''A'', HomeGoals = Some 3, AwayGoals = Some 1\<rparr>,
      \<lparr>HomeTeam = ''H'', AwayTeam = ''A'', HomeGoals = None, AwayGoals = None\<rparr>] ''H''
     = Some \<lparr>wins = 1, losses = 1, total_games = 2\<rparr>
   \<and> calculate_team_records
     [\<lparr>HomeTeam = ''H'', AwayTeam = ''A'', HomeGoals = Some 3, AwayGoals = Some 1\<rparr>,
      \<lparr>HomeTeam = ''H'', AwayTeam = ''A'', HomeGoals = None, AwayGoals = None\<rparr>] ''A''
     = Some \<lparr>wins = 0, losses = 2, total_games = 2\<rparr>
   \<and> calculate_team_records
     [\<lparr>HomeTeam = ''H'', AwayTeam = ''A'', HomeGoals = Some 3, AwayGoals = Some 1\<rparr>] ''H''
     = Some \<lparr>wins = 1, losses = 0, total_games = 1\<rparr>
   \<and> calculate_team_records
     [\<lparr>HomeTeam = ''H'', AwayTeam = ''A'', HomeGoals = Some 3, AwayGoals = Some 1\<rparr>] ''A''
     = Some \<lparr>wins = 0, losses = 1, total_games = 1\<rparr>"
  by (simp add: calculate_team_records_def process_row_def goals_gt_def)

subsection \<open>Invariant of the records\<close>

lemma records_ok_update_record:
  "records_ok m \<Longrightarrow> records_ok (update_record m x)"
  by (cases x) (auto simp: records_ok_def Let_def split: option.splits if_splits)

lemma records_ok_process_row: "records_ok m \<Longrightarrow> records_ok (process_row m row)"
  by (simp add: process_row_def records_ok_update_record del: update_record.simps)

lemma records_ok_foldl: "records_ok m \<Longrightarrow> records_ok (foldl process_row m rows)"
  by (induction rows arbitrary: m) (simp_all add: records_ok_process_row)

text \<open>
  Claim C9. For every sequence of games and every team with an entry in the result of
  \<open>calculate_team_records\<close>, \<open>wins + losses = total_games\<close>.
\<close>

theorem calculate_team_records_invariant:
  assumes "calculate_team_records schedule_df team = Some r"
  shows "wins r + losses r = total_games r"
proof -
  have "records_ok (calculate_team_records schedule_df)"
    unfolding calculate_team_records_def by (rule records_ok_foldl) (simp add: records_ok_def)
  with assms show ?thesis by (simp add: records_ok_def)
qed

theorem calculate_team_records_invariant_witness:
  "calculate_team_records
     [\<lparr>HomeTeam = ''H'', AwayTeam = ''A'', HomeGoals = Some 3, AwayGoals = Some 1\<rparr>,
      \<lparr>HomeTeam = ''A'', AwayTeam = ''H'', HomeGoals = Some 2, AwayGoals = Some 2\<rparr>] ''H''
     = Some \<lparr>wins = 1, losses = 1, total_games = 2\<rparr>
   \<and> wins \<lparr>wins = 1, losses = 1, total_games = 2\<rparr> + losses \<lparr>wins = 1, losses = 1, total_games = 2\<rparr>
     = total_games \<lparr>wins = 1, losses = 1, total_games = 2\<rparr>"
proof -
  have e: "calculate_team_records
     [\<lparr>HomeTeam = ''H'', AwayTeam = ''A'', HomeGoals = Some 3, AwayGoals = Some 1\<rparr>,
      \<lparr>HomeTeam = ''A'', AwayTeam = ''H'', HomeGoals = Some 2, AwayGoals = Some 2\<rparr>] ''H''
     = Some \<lparr>wins = 1, losses = 1, total_games = 2\<rparr>"
    by (simp add: calculate_team_records_def process_row_def goals_gt_def)
  from calculate_team_records_invariant [OF e] e show ?thesis by simp
qed

section \<open>Properties of the table operations\<close>






section \<open>Properties of \<open>simulate_scores\<close>\<close>





section \<open>Properties of \<open>calculate_player_probabilities\<close>\<close>



end
